theory Spec2Isabelle
  imports Main
begin

section \<open>Trending-video scraper: the two workflow nodes of 02_trend_farmer/notebook.ipynb\<close>

text \<open>
  The notebook defines two nodes, \<open>fetch_page_node\<close> and \<open>extract_videos_node\<close>, which a
  linear graph runs one after the other on a shared state dictionary. Each node returns a
  dictionary of the keys it writes; the graph stores every returned key into the state.

  Four things are outside the repository and enter the development as parameters:
  the HTTP request (\<open>requests.get\<close> followed by \<open>raise_for_status\<close> and \<open>.text\<close>), the clock
  (\<open>datetime.now().isoformat()\<close>), the markup parser (\<open>BeautifulSoup(_, "html.parser")\<close>
  on a string) and the standard output that \<open>print\<close> writes to, which may refuse a line
  with an exception. The navigation of the parsed tree (\<open>find\<close>, \<open>find_all\<close>,
  \<open>find_parent\<close>, \<open>get\<close>, \<open>get_text\<close>) is written out on a tree datatype.

  Strings are lists of \<open>char\<close>; a character stands for a code point below 256.
\<close>

subsection \<open>Python values: exceptions, dictionary slots, strings\<close>

datatype exn_class = KeyError | TypeError | ValueError | UnboundLocalError | OtherException

text \<open>An exception carries its class and the text that \<open>str(e)\<close> gives.\<close>

datatype exn = Raise exn_class string

fun str_exn :: "exn \<Rightarrow> string" where
  "str_exn (Raise c m) = m"

text \<open>
  A key of the state dictionary is missing, holds \<open>None\<close>, or holds a value.
\<close>

datatype 'a field = Missing | PyNone | Val 'a

text \<open>\<open>state.get(key)\<close> used as a condition: only a non-empty string is true.\<close>

definition truthy :: "string field \<Rightarrow> bool" where
  "truthy f = (case f of Val s \<Rightarrow> s \<noteq> [] | _ \<Rightarrow> False)"

text \<open>
  \<open>str.isspace\<close> on one character: the code points below 256 that count as whitespace
  are 9 to 13, 28 to 32, 133 and 160.
\<close>

definition isspace :: "char \<Rightarrow> bool" where
  "isspace c =
     (c \<in> set [CHR 0x09, CHR 0x0A, CHR 0x0B, CHR 0x0C, CHR 0x0D, CHR 0x1C, CHR 0x1D, CHR 0x1E,
                CHR 0x1F, CHR 0x20, CHR 0x85, CHR 0xA0])"

definition py_strip :: "string \<Rightarrow> string" where
  "py_strip s = rev (dropWhile isspace (rev (dropWhile isspace s)))"

definition isdigit :: "char \<Rightarrow> bool" where
  "isdigit c = (c \<in> set ''0123456789'')"

definition digit_value :: "char \<Rightarrow> nat" where
  "digit_value c = of_char c - 48"

text \<open>
  The digits of a decimal literal, most significant first: digits with single underscores
  between them. \<open>None\<close> when another character occurs, or an underscore is not between
  two digits. The first argument tells whether the previous character was a digit.
\<close>

fun literal_digits :: "bool \<Rightarrow> string \<Rightarrow> nat list option" where
  "literal_digits prev [] = (if prev then Some [] else None)"
| "literal_digits prev (c # cs) =
     (if isdigit c then map_option (\<lambda>ds. digit_value c # ds) (literal_digits True cs)
      else if c = CHR ''_'' \<and> prev then
        (case cs of [] \<Rightarrow> None
         | d # _ \<Rightarrow> if isdigit d then literal_digits False cs else None)
      else None)"

text \<open>\<open>str(n)\<close> for an integer: its decimal digits, with a minus sign when negative.\<close>

function str_nat :: "nat \<Rightarrow> string" where
  "str_nat n =
     (if n < 10 then [''0123456789'' ! n]
      else str_nat (n div 10) @ [''0123456789'' ! (n mod 10)])"
  by pat_completeness auto
termination
  by (relation "measure id") auto

definition str_int :: "int \<Rightarrow> string" where
  "str_int i = (if i < 0 then CHR ''-'' # str_nat (nat (- i)) else str_nat (nat i))"

text \<open>
  \<open>repr(s)\<close> for a string: double quotes when the string holds a single quote and no
  double quote, single quotes otherwise; the quote and the backslash are escaped, tab,
  newline and carriage return are written with their letters, a character that is not
  printable (below 32, 127 to 160, 173) as \<open>\xNN\<close>.
\<close>

definition hex_escape :: "char \<Rightarrow> string" where
  "hex_escape c =
     [CHR 0x5C, CHR ''x'', ''0123456789abcdef'' ! (of_char c div 16),
      ''0123456789abcdef'' ! (of_char c mod 16)]"

definition isprintable :: "char \<Rightarrow> bool" where
  "isprintable c =
     (let n = (of_char c :: nat) in (32 \<le> n \<and> n < 127) \<or> (161 \<le> n \<and> n \<noteq> 173))"

definition repr_char :: "char \<Rightarrow> char \<Rightarrow> string" where
  "repr_char q c =
     (if c = q \<or> c = CHR 0x5C then [CHR 0x5C, c]
      else if c = CHR 0x09 then [CHR 0x5C, CHR ''t'']
      else if c = CHR 0x0A then [CHR 0x5C, CHR ''n'']
      else if c = CHR 0x0D then [CHR 0x5C, CHR ''r'']
      else if isprintable c then [c]
      else hex_escape c)"

definition py_repr :: "string \<Rightarrow> string" where
  "py_repr s =
     (let q = (if CHR 0x27 \<in> set s \<and> CHR 0x22 \<notin> set s then CHR 0x22 else CHR 0x27)
      in q # concat (map (repr_char q) s) @ [q])"

text \<open>The two ways \<open>int\<close> refuses a string; the first shows at most 200 characters of it.\<close>

definition invalid_literal :: "string \<Rightarrow> exn" where
  "invalid_literal s =
     Raise ValueError (''invalid literal for int() with base 10: '' @ take 200 (py_repr s))"

definition too_many_digits :: "nat \<Rightarrow> exn" where
  "too_many_digits n =
     Raise ValueError
       (''Exceeds the limit (4300 digits) for integer string conversion: value has ''
        @ str_nat n @ '' digits; use sys.set_int_max_str_digits() to increase the limit'')"

text \<open>
  The whitespace \<open>int\<close> drops around a literal: tab, line feed, vertical tab, form feed,
  carriage return and space, and of the characters from 127 on those that count as
  space (133 and 160). The separators 28 to 31 are not dropped.
\<close>

definition int_isspace :: "char \<Rightarrow> bool" where
  "int_isspace c =
     (c \<in> set [CHR 0x09, CHR 0x0A, CHR 0x0B, CHR 0x0C, CHR 0x0D, CHR 0x20, CHR 0x85, CHR 0xA0])"

text \<open>
  \<open>int(s)\<close> on a string: surrounding whitespace is dropped, one sign is allowed, and a
  literal of more than 4300 digits is refused (the interpreter's default limit).
\<close>

definition py_int :: "string \<Rightarrow> exn + int" where
  "py_int s =
     (let t = rev (dropWhile int_isspace (rev (dropWhile int_isspace s)));
          neg = (t \<noteq> [] \<and> hd t = CHR ''-'');
          body = (if t \<noteq> [] \<and> (hd t = CHR ''-'' \<or> hd t = CHR ''+'') then tl t else t)
      in if body = [] then Inl (invalid_literal s)
         else (case literal_digits False body of
                 None \<Rightarrow> Inl (invalid_literal s)
               | Some ds \<Rightarrow>
                   if length ds > 4300 then Inl (too_many_digits (length ds))
                   else (let n = int (foldl (\<lambda>a d. 10 * a + d) 0 ds)
                         in Inr (if neg then - n else n))))"

subsection \<open>The parsed document\<close>

text \<open>
  A node of the tree BeautifulSoup builds: a tag with its name, its attributes as written
  in the markup and its children; a text string; or a string that \<open>get_text\<close> leaves out
  (a comment, a declaration, the content of a script or style element). The document
  itself is the tag named \<open>[document]\<close>.
\<close>

datatype node =
    Tag string "(string \<times> string) list" "node list"
  | NavigableString string
  | Comment string

text \<open>Every descendant of a node, in document order.\<close>

fun descendants :: "node \<Rightarrow> node list" where
  "descendants (Tag n a cs) = concat (map (\<lambda>c. c # descendants c) cs)"
| "descendants (NavigableString s) = []"
| "descendants (Comment s) = []"

text \<open>
  The same descendants, each with its ancestors (nearest first); \<open>anc\<close> holds the
  ancestors of the node itself. A tag found this way can be asked for its parents.
\<close>

fun descendants_at :: "node list \<Rightarrow> node \<Rightarrow> (node \<times> node list) list" where
  "descendants_at anc (Tag n a cs) =
     concat (map (\<lambda>c. (c, Tag n a cs # anc) # descendants_at (Tag n a cs # anc) c) cs)"
| "descendants_at anc (NavigableString s) = []"
| "descendants_at anc (Comment s) = []"

text \<open>The tokens of a multi-valued attribute: the maximal runs of non-whitespace.\<close>

definition nonwhitespace_findall :: "string \<Rightarrow> string list" where
  "nonwhitespace_findall s =
     filter (\<lambda>w. w \<noteq> [])
       (foldr (\<lambda>c acc. if isspace c then [] # acc
                        else (case acc of [] \<Rightarrow> [[c]] | w # ws \<Rightarrow> (c # w) # ws)) s [])"

fun join_space :: "string list \<Rightarrow> string" where
  "join_space [] = []"
| "join_space [w] = w"
| "join_space (w # ws) = w @ '' '' @ join_space ws"

text \<open>Attributes the HTML tree builder splits into a list of tokens on every tag.\<close>

definition cdata_list_attributes :: "string list" where
  "cdata_list_attributes = [''class'', ''accesskey'', ''dropzone'']"

text \<open>
  One attribute filter: the attribute \<open>k\<close> of the tag (absent: \<open>None\<close>) against the
  accepted strings. A single-valued attribute must equal one of them; a multi-valued one
  matches when one of its tokens does, or when its tokens joined by spaces do.
\<close>

definition attribute_match :: "string \<Rightarrow> string option \<Rightarrow> string list \<Rightarrow> bool" where
  "attribute_match k v rules =
     (case v of None \<Rightarrow> False
      | Some s \<Rightarrow>
          (let attr_values = (if k \<in> set cdata_list_attributes then nonwhitespace_findall s else [s])
           in list_ex (\<lambda>r. r \<in> set attr_values) rules
              \<or> (length attr_values \<noteq> 1 \<and> join_space attr_values \<in> set rules)))"

text \<open>A tag matches a name and a dictionary of attribute filters when all of them hold.\<close>

fun matches_tag :: "string \<Rightarrow> (string \<times> string list) list \<Rightarrow> node \<Rightarrow> bool" where
  "matches_tag nm flt (Tag n a cs) =
     (n = nm \<and> list_all (\<lambda>(k, rules). attribute_match k (map_of a k) rules) flt)"
| "matches_tag nm flt (NavigableString s) = False"
| "matches_tag nm flt (Comment s) = False"

definition find_all :: "node \<Rightarrow> string \<Rightarrow> (string \<times> string list) list \<Rightarrow> node list" where
  "find_all t nm flt = filter (matches_tag nm flt) (descendants t)"

text \<open>\<open>find\<close>: the first match in document order, or \<open>None\<close>.\<close>

definition find_tag :: "node \<Rightarrow> string \<Rightarrow> (string \<times> string list) list \<Rightarrow> node option" where
  "find_tag t nm flt = (case find_all t nm flt of [] \<Rightarrow> None | x # _ \<Rightarrow> Some x)"

text \<open>\<open>find\<close> that keeps the ancestors of the tag found, for a later \<open>find_parent\<close>.\<close>

definition find_tag_at ::
  "node \<Rightarrow> string \<Rightarrow> (string \<times> string list) list \<Rightarrow> (node \<times> node list) option" where
  "find_tag_at t nm flt =
     (case filter (\<lambda>(x, anc). matches_tag nm flt x) (descendants_at [] t) of
        [] \<Rightarrow> None | x # _ \<Rightarrow> Some x)"

text \<open>\<open>find_parent\<close>: the nearest ancestor that matches.\<close>

definition find_parent ::
  "(node \<times> node list) \<Rightarrow> string \<Rightarrow> (string \<times> string list) list \<Rightarrow> node option" where
  "find_parent e nm flt =
     (case filter (matches_tag nm flt) (snd e) of [] \<Rightarrow> None | x # _ \<Rightarrow> Some x)"

text \<open>\<open>tag.get(key, default)\<close> on a single-valued attribute.\<close>

fun get_attr :: "node \<Rightarrow> string \<Rightarrow> string \<Rightarrow> string" where
  "get_attr (Tag n a cs) k d = (case map_of a k of None \<Rightarrow> d | Some v \<Rightarrow> v)"
| "get_attr (NavigableString s) k d = d"
| "get_attr (Comment s) k d = d"

fun string_of :: "node \<Rightarrow> string list" where
  "string_of (NavigableString s) = [s]"
| "string_of (Tag n a cs) = []"
| "string_of (Comment s) = []"

text \<open>
  \<open>get_text(strip=True)\<close>: the text strings below the tag, each stripped, the empty ones
  dropped, joined with nothing between them.
\<close>

definition get_text_strip :: "node \<Rightarrow> string" where
  "get_text_strip t =
     concat (filter (\<lambda>s. s \<noteq> []) (map py_strip (concat (map string_of (descendants t)))))"

text \<open>
  \<open>BeautifulSoup(markup, "html.parser")\<close>: anything but a string is refused with a
  \<open>TypeError\<close>; a string goes to the parser.
\<close>

definition BeautifulSoup :: "(string \<Rightarrow> exn + node) \<Rightarrow> string option \<Rightarrow> exn + node" where
  "BeautifulSoup parser markup =
     (case markup of
        None \<Rightarrow> Inl (Raise TypeError
          ''Incoming markup is of an invalid type: None. Markup must be a string, a bytestring, or an open filehandle.'')
      | Some s \<Rightarrow> parser s)"

subsection \<open>Data model of the notebook\<close>

record TrendingVideo =
  title :: string
  channel :: string
  thumbnail_url :: string
  video_url :: string
  rank :: int

record WorkflowState =
  url :: string
  raw_html :: "string field"
  trending_videos :: "TrendingVideo list"
  error :: "string field"
  timestamp :: "string field"

text \<open>The dictionary a node returns: for each key, whether it is there and its value.\<close>

record update =
  upd_raw_html :: "string option"
  upd_trending_videos :: "TrendingVideo list option"
  upd_error :: "string option"
  upd_timestamp :: "string option"

definition no_update :: update where
  "no_update = \<lparr>upd_raw_html = None, upd_trending_videos = None, upd_error = None,
                 upd_timestamp = None\<rparr>"

definition apply_update :: "update \<Rightarrow> WorkflowState \<Rightarrow> WorkflowState" where
  "apply_update u s =
     s\<lparr>raw_html := (case upd_raw_html u of None \<Rightarrow> raw_html s | Some v \<Rightarrow> Val v),
        trending_videos := (case upd_trending_videos u of None \<Rightarrow> trending_videos s | Some v \<Rightarrow> v),
        error := (case upd_error u of None \<Rightarrow> error s | Some v \<Rightarrow> Val v),
        timestamp := (case upd_timestamp u of None \<Rightarrow> timestamp s | Some v \<Rightarrow> Val v)\<rparr>"

subsection \<open>fetch_page_node\<close>

text \<open>
  \<open>requests_get\<close> stands for the request, the status check and the body text together:
  it gives the body, or the exception one of them raised. \<open>now\<close> is the timestamp the
  clock gives.
\<close>

definition fetch_page_node ::
  "(string \<Rightarrow> exn + string) \<Rightarrow> string \<Rightarrow> WorkflowState \<Rightarrow> update" where
  "fetch_page_node requests_get now state =
     (case requests_get (url state) of
        Inr text \<Rightarrow> no_update\<lparr>upd_raw_html := Some text, upd_timestamp := Some now\<rparr>
      | Inl e \<Rightarrow> no_update\<lparr>upd_error := Some (''Failed to fetch page: '' @ str_exn e),
                             upd_timestamp := Some now\<rparr>)"

subsection \<open>extract_videos_node\<close>

text \<open>The three landmarks (notebook lines 145 to 168); \<open>Inl\<close> is the error text returned.\<close>

definition locate_video_list :: "node \<Rightarrow> string + node" where
  "locate_video_list soup =
     (case find_tag_at soup ''h3'' [(''id'', [''group-all''])] of
        None \<Rightarrow> Inl ''Could not find the 'All' section header''
      | Some all_header \<Rightarrow>
          (case find_parent all_header ''section'' [(''class'', [''page-section''])] of
             None \<Rightarrow> Inl ''Could not find the 'All' section container''
           | Some all_section \<Rightarrow>
               (case find_tag all_section ''ol''
                       [(''aria-labelledby'', [''group-all'']), (''class'', [''video-list''])] of
                  None \<Rightarrow> Inl ''Could not find video list in 'All' section''
                | Some video_list \<Rightarrow> Inr video_list)))"

definition video_items :: "node \<Rightarrow> node list" where
  "video_items video_list = find_all video_list ''li'' [(''class'', [''video-item''])]"

definition rank_span :: "node \<Rightarrow> node option" where
  "rank_span item =
     find_tag item ''span''
       [(''class'', [''text-slate-400'', ''font-semibold'', ''text-xl'', ''p-4''])]"

text \<open>The rank expression (lines 179 to 183); \<open>n\<close> is \<open>len(videos)\<close>.\<close>

definition rank_of :: "node \<Rightarrow> nat \<Rightarrow> exn + int" where
  "rank_of item n =
     (case rank_span item of
        Some sp \<Rightarrow> py_int (get_text_strip sp)
      | None \<Rightarrow> Inr (int n + 1))"

definition video_link :: "node \<Rightarrow> node option" where
  "video_link item = find_tag item ''a'' [(''class'', [''video-link''])]"

definition thumbnail_url_of :: "node \<Rightarrow> string" where
  "thumbnail_url_of a =
     (case find_tag a ''img'' [(''class'', [''thumbnail''])] of
        Some thumbnail_img \<Rightarrow> get_attr thumbnail_img ''src'' []
      | None \<Rightarrow> [])"

definition title_of :: "node \<Rightarrow> string" where
  "title_of a =
     (case find_tag a ''h4'' [(''class'', [''vc-title''])] of
        Some title_elem \<Rightarrow> get_text_strip title_elem
      | None \<Rightarrow> ''No title'')"

definition info_p :: "node \<Rightarrow> node option" where
  "info_p a = find_tag a ''p'' [(''class'', [''text-sm'', ''text-slate-500''])]"

definition channel_spans :: "node \<Rightarrow> node list" where
  "channel_spans p = find_all p ''span'' [(''class'', [''font-medium''])]"

definition channel_of :: "node \<Rightarrow> string" where
  "channel_of a =
     (case info_p a of
        None \<Rightarrow> []
      | Some p \<Rightarrow>
          (if length (channel_spans p) \<ge> 2 then get_text_strip (channel_spans p ! 1) else []))"

text \<open>The record built from the link element of an entry (lines 190 to 217).\<close>

definition make_video :: "node \<Rightarrow> int \<Rightarrow> TrendingVideo" where
  "make_video a r =
     \<lparr>title = title_of a, channel = channel_of a, thumbnail_url = thumbnail_url_of a,
      video_url = get_attr a ''href'' [], rank = r\<rparr>"

text \<open>
  The handler of the inner \<open>try\<close> prints a line that holds the local variable \<open>rank\<close>
  and the text of the exception. Reading a local that no assignment has bound yet raises
  \<open>UnboundLocalError\<close>, before anything is printed.
\<close>

definition unbound_rank :: exn where
  "unbound_rank =
     Raise UnboundLocalError
       ''cannot access local variable 'rank' where it is not associated with a value''"

definition error_line :: "int \<Rightarrow> exn \<Rightarrow> string" where
  "error_line r e = ''Error extracting video '' @ str_int r @ '': '' @ str_exn e"

text \<open>
  The loop over the entries (lines 173 to 223). The state of the loop is the list
  \<open>videos\<close>, the local \<open>rank\<close> (\<open>None\<close> while unbound) and the lines printed so far.
  \<open>print\<close> is the standard output: given the lines this call has printed and the next
  line, it accepts the line (\<open>None\<close>) or raises. \<open>Inl\<close> is an exception that leaves the
  loop. A bound \<open>rank\<close> is a count or the value of a literal of at most 4300 digits, so
  formatting it does not meet the limit on digits.
\<close>

fun extract_loop ::
  "(string list \<Rightarrow> string \<Rightarrow> exn option) \<Rightarrow> node list \<Rightarrow> TrendingVideo list \<Rightarrow> int option \<Rightarrow>
     string list \<Rightarrow> exn + (TrendingVideo list \<times> int option \<times> string list)" where
  "extract_loop print [] videos rnk log = Inr (videos, rnk, log)"
| "extract_loop print (item # items) videos rnk log =
     (case rank_of item (length videos) of
        Inl e \<Rightarrow>
          (case rnk of
             None \<Rightarrow> Inl unbound_rank
           | Some r \<Rightarrow>
               (case print log (error_line r e) of
                  Some x \<Rightarrow> Inl x
                | None \<Rightarrow> extract_loop print items videos rnk (log @ [error_line r e])))
      | Inr r \<Rightarrow>
          (case video_link item of
             None \<Rightarrow> extract_loop print items videos (Some r) log
           | Some a \<Rightarrow> extract_loop print items (videos @ [make_video a r]) (Some r) log))"

text \<open>The body of the outer \<open>try\<close> (lines 141 to 225).\<close>

definition extract_videos_try ::
  "(string \<Rightarrow> exn + node) \<Rightarrow> (string list \<Rightarrow> string \<Rightarrow> exn option) \<Rightarrow> WorkflowState \<Rightarrow>
     exn + update" where
  "extract_videos_try parser print state =
     (case raw_html state of
        Missing \<Rightarrow> Inl (Raise KeyError ([CHR 0x27] @ ''raw_html'' @ [CHR 0x27]))
      | markup \<Rightarrow>
          (case BeautifulSoup parser (case markup of Val s \<Rightarrow> Some s | _ \<Rightarrow> None) of
             Inl e \<Rightarrow> Inl e
           | Inr soup \<Rightarrow>
               (case locate_video_list soup of
                  Inl msg \<Rightarrow> Inr (no_update\<lparr>upd_error := Some msg, upd_trending_videos := Some []\<rparr>)
                | Inr video_list \<Rightarrow>
                    (case extract_loop print (take 20 (video_items video_list)) [] None [] of
                       Inl e \<Rightarrow> Inl e
                     | Inr (videos, rnk, log) \<Rightarrow>
                         Inr (no_update\<lparr>upd_trending_videos := Some videos\<rparr>)))))"

definition extract_videos_node ::
  "(string \<Rightarrow> exn + node) \<Rightarrow> (string list \<Rightarrow> string \<Rightarrow> exn option) \<Rightarrow> WorkflowState \<Rightarrow> update" where
  "extract_videos_node parser print state =
     (if truthy (error state) then no_update\<lparr>upd_trending_videos := Some []\<rparr>
      else (case extract_videos_try parser print state of
              Inr u \<Rightarrow> u
            | Inl e \<Rightarrow> no_update\<lparr>upd_error := Some (''Failed to extract videos: '' @ str_exn e),
                                   upd_trending_videos := Some []\<rparr>))"

subsection \<open>The workflow\<close>

text \<open>The graph: start, \<open>fetch_page\<close>, \<open>extract_videos\<close>, end.\<close>

definition run_workflow ::
  "(string \<Rightarrow> exn + string) \<Rightarrow> string \<Rightarrow> (string \<Rightarrow> exn + node) \<Rightarrow>
     (string list \<Rightarrow> string \<Rightarrow> exn option) \<Rightarrow> WorkflowState \<Rightarrow> WorkflowState" where
  "run_workflow requests_get now parser print state =
     (let s1 = apply_update (fetch_page_node requests_get now state) state
      in apply_update (extract_videos_node parser print s1) s1)"

subsection \<open>Hypotheses used in the statements\<close>

text \<open>A key of the state holds a value (it is neither missing nor \<open>None\<close>).\<close>

definition is_set :: "'a field \<Rightarrow> bool" where
  "is_set f = (case f of Val v \<Rightarrow> True | _ \<Rightarrow> False)"

subsection \<open>Sample documents\<close>

text \<open>
  An entry as the page lays it out: an optional rank label, and an optional link element
  (given by its attributes besides the class) that holds thumbnail, title and info
  paragraph with two medium-emphasis spans.
\<close>

definition sample_entry :: "string option \<Rightarrow> (string \<times> string) list option \<Rightarrow> node" where
  "sample_entry lbl link =
     Tag ''li'' [(''class'', ''video-item flex'')]
       ((case lbl of
           None \<Rightarrow> []
         | Some l \<Rightarrow>
             [Tag ''span'' [(''class'', ''text-slate-400 font-semibold text-xl p-4'')]
                [NavigableString l]])
        @ (case link of
             None \<Rightarrow> []
           | Some extra \<Rightarrow>
               [Tag ''a'' ((''class'', ''video-link'') # extra)
                  [Tag ''img'' [(''class'', ''thumbnail''), (''src'', ''t.jpg'')] [],
                   Tag ''h4'' [(''class'', ''vc-title'')] [NavigableString '' A title ''],
                   Tag ''p'' [(''class'', ''text-sm text-slate-500'')]
                     [Tag ''span'' [(''class'', ''font-medium'')] [NavigableString ''1M''],
                      NavigableString '' views by '',
                      Tag ''span'' [(''class'', ''font-medium'')] [NavigableString ''Chan'']]]]))"


definition sample_list :: "node list \<Rightarrow> node" where
  "sample_list entries =
     Tag ''ol'' [(''aria-labelledby'', ''group-all''), (''class'', ''video-list'')] entries"

definition sample_section :: "node list \<Rightarrow> node" where
  "sample_section entries =
     Tag ''section'' [(''class'', ''page-section mt-4'')]
       [Tag ''div'' [] [Tag ''h3'' [(''id'', ''group-all'')] [NavigableString ''All'']],
        sample_list entries]"

definition sample_page :: "node list \<Rightarrow> node" where
  "sample_page entries = Tag ''[document]'' [] [Tag ''html'' [] [Tag ''body'' [] [sample_section entries]]]"

definition const_parser :: "node \<Rightarrow> string \<Rightarrow> exn + node" where
  "const_parser doc s = Inr doc"

definition failing_parser :: "string \<Rightarrow> exn + node" where
  "failing_parser s = Inl (Raise OtherException ''markup rejected'')"

definition const_get :: "exn + string \<Rightarrow> string \<Rightarrow> exn + string" where
  "const_get r u = r"

text \<open>The state the notebook starts the graph with.\<close>

definition initial_state :: WorkflowState where
  "initial_state =
     \<lparr>url = ''https://youtube.trends24.in/'', raw_html = PyNone, trending_videos = [],
      error = PyNone, timestamp = PyNone\<rparr>"

text \<open>A state as the fetcher leaves it after a successful request.\<close>

definition fetched_state :: WorkflowState where
  "fetched_state = initial_state\<lparr>raw_html := Val ''<html>'', timestamp := Val ''t0''\<rparr>"

definition plain_link :: "string \<Rightarrow> (string \<times> string) list option" where
  "plain_link u = Some [(''href'', u)]"

text \<open>A bare entry: no rank label, and a link element with nothing inside.\<close>

definition light_entry :: "string \<Rightarrow> node" where
  "light_entry u =
     Tag ''li'' [(''class'', ''video-item'')] [Tag ''a'' [(''class'', ''video-link''), (''href'', u)] []]"

text \<open>An entry with a rank label and a link element with nothing inside.\<close>

definition labelled_entry :: "string \<times> string \<Rightarrow> node" where
  "labelled_entry lu =
     Tag ''li'' [(''class'', ''video-item'')]
       [Tag ''span'' [(''class'', ''text-xl p-4'')] [NavigableString (fst lu)],
        Tag ''a'' [(''class'', ''video-link''), (''href'', snd lu)] []]"

text \<open>Twenty-five labelled entries; the labels run from 6 to 30.\<close>

definition labels_and_urls25 :: "(string \<times> string) list" where
  "labels_and_urls25 =
     [(''6'', ''a01''), (''7'', ''a02''), (''8'', ''a03''), (''9'', ''a04''), (''10'', ''a05''),
      (''11'', ''a06''), (''12'', ''a07''), (''13'', ''a08''), (''14'', ''a09''), (''15'', ''a10''),
      (''16'', ''a11''), (''17'', ''a12''), (''18'', ''a13''), (''19'', ''a14''), (''20'', ''a15''),
      (''21'', ''a16''), (''22'', ''a17''), (''23'', ''a18''), (''24'', ''a19''), (''25'', ''a20''),
      (''26'', ''a21''), (''27'', ''a22''), (''28'', ''a23''), (''29'', ''a24''), (''30'', ''a25'')]"

definition entries25 :: "node list" where
  "entries25 = map labelled_entry labels_and_urls25"

text \<open>
  The children of a list as a parser leaves them: a string of whitespace before every
  entry.
\<close>

definition spaced :: "node list \<Rightarrow> node list" where
  "spaced entries = concat (map (\<lambda>e. [NavigableString [CHR 0x0A, CHR '' '', CHR '' ''], e]) entries)"

text \<open>The header of the sample page with its ancestors, nearest first.\<close>

definition sample_header :: "node list \<Rightarrow> node \<times> node list" where
  "sample_header entries =
     (Tag ''h3'' [(''id'', ''group-all'')] [NavigableString ''All''],
      [Tag ''div'' [] [Tag ''h3'' [(''id'', ''group-all'')] [NavigableString ''All'']],
       sample_section entries,
       Tag ''body'' [] [sample_section entries],
       Tag ''html'' [] [Tag ''body'' [] [sample_section entries]],
       sample_page entries])"

text \<open>
  Three pages that each lack one landmark: no header (though a list is there), a header
  outside any page section, and a page section without the list.
\<close>

definition page_without_header :: node where
  "page_without_header =
     Tag ''[document]'' []
       [Tag ''section'' [(''class'', ''page-section'')] [sample_list [light_entry ''u1'']]]"

definition page_without_section :: node where
  "page_without_section =
     Tag ''[document]'' []
       [Tag ''div'' [(''class'', ''page'')]
          [Tag ''h3'' [(''id'', ''group-all'')] [NavigableString ''All''],
           sample_list [light_entry ''u1'']]]"

definition page_without_list :: node where
  "page_without_list =
     Tag ''[document]'' []
       [Tag ''section'' [(''class'', ''page-section'')]
          [Tag ''h3'' [(''id'', ''group-all'')] [NavigableString ''All''],
           Tag ''ol'' [(''class'', ''video-list'')] [light_entry ''u1'']]]"

text \<open>A standard output that accepts every line, and one that refuses every line.\<close>

definition quiet_print :: "string list \<Rightarrow> string \<Rightarrow> exn option" where
  "quiet_print log line = None"

definition refusing_print :: "string list \<Rightarrow> string \<Rightarrow> exn option" where
  "refusing_print log line = Some (Raise OtherException ''stdout cannot encode the line'')"

section \<open>Properties\<close>

subsection \<open>The loop over the entries\<close>

lemma truthy_Val [simp]: "truthy (Val s) = (s \<noteq> [])"
  by (simp add: truthy_def)

lemma truthy_simps [simp]: "truthy PyNone = False" "truthy Missing = False"
  by (simp_all add: truthy_def)


text \<open>
  The loop only appends: its result extends the list it started with, by at most one
  record per entry, and every added record is built from the primary link of an entry.
\<close>

lemma extract_loop_appends:
  "extract_loop print items videos rnk log = Inr (out, r', l') \<Longrightarrow>
     \<exists>ys. out = videos @ ys \<and> length ys \<le> length items \<and>
       (\<forall>v \<in> set ys. \<exists>item \<in> set items. \<exists>a r. video_link item = Some a \<and> v = make_video a r)"
proof (induction items arbitrary: videos rnk log)
  case Nil
  then show ?case by simp
next
  case (Cons item items)
  show ?case
  proof (cases "rank_of item (length videos)")
    case (Inl e)
    with Cons.prems obtain r where
      "extract_loop print items videos rnk (log @ [error_line r e]) = Inr (out, r', l')"
      by (cases rnk) (auto split: option.splits)
    from Cons.IH [OF this] show ?thesis by fastforce
  next
    case (Inr r1)
    show ?thesis
    proof (cases "video_link item")
      case None
      with Inr Cons.prems have "extract_loop print items videos (Some r1) log = Inr (out, r', l')"
        by simp
      from Cons.IH [OF this] show ?thesis by fastforce
    next
      case (Some a)
      with Inr Cons.prems
      have "extract_loop print items (videos @ [make_video a r1]) (Some r1) log = Inr (out, r', l')"
        by simp
      from Cons.IH [OF this] obtain ys where
        ys: "out = (videos @ [make_video a r1]) @ ys" "length ys \<le> length items"
          "\<forall>v \<in> set ys. \<exists>item \<in> set items. \<exists>a r. video_link item = Some a \<and> v = make_video a r"
        by blast
      have "out = videos @ (make_video a r1 # ys)" using ys(1) by simp
      moreover have "length (make_video a r1 # ys) \<le> length (item # items)" using ys(2) by simp
      moreover have "\<forall>v \<in> set (make_video a r1 # ys).
          \<exists>it \<in> set (item # items). \<exists>a r. video_link it = Some a \<and> v = make_video a r"
        using ys(3) Some by auto
      ultimately show ?thesis by blast
    qed
  qed
qed


text \<open>
  Entries that all have a primary link and a rank that can be read: the loop emits one
  record per entry, in order. \<open>link\<close> and \<open>rk\<close> name the link and the rank of the entry at
  each position.
\<close>

lemma extract_loop_readable:
  assumes "\<forall>i < length items. video_link (items ! i) = Some (link i)"
    and "\<forall>i < length items. rank_of (items ! i) (length videos + i) = Inr (rk i)"
  shows "\<exists>r'. extract_loop print items videos rnk log =
     Inr (videos @ map (\<lambda>i. make_video (link i) (rk i)) [0..<length items], r', log)"
  using assms
proof (induction items arbitrary: videos rnk link rk)
  case Nil
  show ?case by simp
next
  case (Cons item items)
  from Cons.prems(1) have a: "video_link item = Some (link 0)" by force
  from Cons.prems(2) have r: "rank_of item (length videos) = Inr (rk 0)" by force
  let ?videos = "videos @ [make_video (link 0) (rk 0)]"
  have l: "\<forall>i < length items. video_link (items ! i) = Some ((link \<circ> Suc) i)"
    using Cons.prems(1) by auto
  have k: "\<forall>i < length items. rank_of (items ! i) (length ?videos + i) = Inr ((rk \<circ> Suc) i)"
    using Cons.prems(2) by auto
  from Cons.IH [OF l k, of "Some (rk 0)"] obtain r' where
    ih: "extract_loop print items ?videos (Some (rk 0)) log =
       Inr (?videos @ map (\<lambda>i. make_video ((link \<circ> Suc) i) ((rk \<circ> Suc) i)) [0..<length items], r', log)"
    by blast
  have idx: "map (\<lambda>i. make_video (link i) (rk i)) [0..<length (item # items)]
           = make_video (link 0) (rk 0)
               # map (\<lambda>i. make_video ((link \<circ> Suc) i) ((rk \<circ> Suc) i)) [0..<length items]"
    by (simp add: upt_conv_Cons map_Suc_upt [symmetric] del: upt_Suc)
  show ?case using a r ih idx by simp
qed

lemma video_url_make_video [simp]: "video_url (make_video a r) = get_attr a ''href'' []"
  by (simp add: make_video_def)

lemma rank_make_video [simp]: "rank (make_video a r) = r"
  by (simp add: make_video_def)

lemma channel_make_video [simp]: "channel (make_video a r) = channel_of a"
  by (simp add: make_video_def)

text \<open>What the extractor returns once the three landmarks are found.\<close>

lemma extract_videos_node_located:
  assumes "\<not> truthy (error state)" and "raw_html state = Val html" and "parser html = Inr soup"
    and "locate_video_list soup = Inr video_list"
  shows "extract_videos_node parser print state =
    (case extract_loop print (take 20 (video_items video_list)) [] None [] of
       Inl e \<Rightarrow> no_update\<lparr>upd_error := Some (''Failed to extract videos: '' @ str_exn e),
                            upd_trending_videos := Some []\<rparr>
     | Inr (videos, rnk, log) \<Rightarrow> no_update\<lparr>upd_trending_videos := Some videos\<rparr>)"
  using assms
  by (simp add: extract_videos_node_def extract_videos_try_def BeautifulSoup_def
      split: sum.splits prod.splits)

subsection \<open>Searching the tree\<close>

text \<open>The two traversals list the same nodes.\<close>

lemma descendants_at_fst: "map fst (descendants_at anc t) = descendants t"
  by (induction anc t rule: descendants_at.induct) (simp_all add: map_concat comp_def cong: map_cong)

text \<open>A search finds nothing exactly when no descendant matches.\<close>

lemma find_tag_None_iff:
  "find_tag t nm flt = None \<longleftrightarrow> (\<forall>x \<in> set (descendants t). \<not> matches_tag nm flt x)"
proof -
  have "find_tag t nm flt = None \<longleftrightarrow> filter (matches_tag nm flt) (descendants t) = []"
    by (simp add: find_tag_def find_all_def split: list.splits)
  then show ?thesis by (simp add: filter_empty_conv)
qed

lemma find_tag_at_None_iff:
  "find_tag_at t nm flt = None \<longleftrightarrow> (\<forall>x \<in> set (descendants t). \<not> matches_tag nm flt x)"
proof -
  have "find_tag_at t nm flt = None \<longleftrightarrow>
      filter (\<lambda>(x, anc). matches_tag nm flt x) (descendants_at [] t) = []"
    by (simp add: find_tag_at_def split: list.splits)
  also have "\<dots> \<longleftrightarrow> (\<forall>p \<in> set (descendants_at [] t). \<not> matches_tag nm flt (fst p))"
    by (auto simp: filter_empty_conv)
  also have "\<dots> \<longleftrightarrow> (\<forall>x \<in> set (map fst (descendants_at [] t)). \<not> matches_tag nm flt x)"
    by auto
  finally show ?thesis by (simp only: descendants_at_fst)
qed

text \<open>
  The entries of a list whose children hold no entry further inside are its children
  that are entries, in the order of the children.
\<close>

lemma find_all_children:
  assumes "\<forall>c \<in> set cs. \<forall>y \<in> set (descendants c). \<not> matches_tag nm flt y"
  shows "find_all (Tag n a cs) nm flt = filter (matches_tag nm flt) cs"
proof -
  have "filter (matches_tag nm flt) (concat (map (\<lambda>c. c # descendants c) cs))
      = filter (matches_tag nm flt) cs"
    using assms
  proof (induction cs)
    case Nil
    show ?case by simp
  next
    case (Cons c cs)
    have "filter (matches_tag nm flt) (descendants c) = []"
      using Cons.prems by (simp add: filter_empty_conv)
    then show ?case using Cons by simp
  qed
  then show ?thesis by (simp add: find_all_def)
qed

subsection \<open>Facts about the sample documents\<close>

lemmas match_simps =
  attribute_match_def cdata_list_attributes_def nonwhitespace_findall_def isspace_def

lemma find_header_sample_page:
  "find_tag_at (sample_page es) ''h3'' [(''id'', [''group-all''])] = Some (sample_header es)"
  by (simp add: sample_page_def sample_section_def sample_header_def find_tag_at_def match_simps)

lemma find_section_sample_page:
  "find_parent (sample_header es) ''section'' [(''class'', [''page-section''])]
     = Some (sample_section es)"
  by (simp add: sample_header_def sample_section_def sample_page_def find_parent_def match_simps)

lemma find_list_sample_page:
  "find_tag (sample_section es) ''ol''
     [(''aria-labelledby'', [''group-all'']), (''class'', [''video-list''])] = Some (sample_list es)"
  by (simp add: sample_section_def sample_list_def find_tag_def find_all_def match_simps)

lemma locate_sample_page: "locate_video_list (sample_page es) = Inr (sample_list es)"
  by (simp add: locate_video_list_def find_header_sample_page find_section_sample_page
      find_list_sample_page)


lemma find_link_labelled_entry:
  "find_tag (labelled_entry lu) ''a'' [(''class'', [''video-link''])]
     = Some (Tag ''a'' [(''class'', ''video-link''), (''href'', snd lu)] [])"
  by (simp add: labelled_entry_def find_tag_def find_all_def match_simps)

lemma find_label_labelled_entry:
  "find_tag (labelled_entry lu) ''span''
     [(''class'', [''text-slate-400'', ''font-semibold'', ''text-xl'', ''p-4''])]
     = Some (Tag ''span'' [(''class'', ''text-xl p-4'')] [NavigableString (fst lu)])"
  by (simp add: labelled_entry_def find_tag_def find_all_def match_simps)

lemma get_text_strip_single:
  "get_text_strip (Tag n a [NavigableString l]) = py_strip l"
  by (simp add: get_text_strip_def)

lemma labelled_entry_is_item:
  "matches_tag ''li'' [(''class'', [''video-item''])] (labelled_entry lu)"
  by (simp add: labelled_entry_def match_simps)

lemma labelled_entry_no_item_inside:
  "y \<in> set (descendants (labelled_entry lu)) \<Longrightarrow> \<not> matches_tag ''li'' [(''class'', [''video-item''])] y"
  by (auto simp: labelled_entry_def)

lemma spaced_no_item_inside:
  "\<forall>c \<in> set (spaced (map labelled_entry xs)). \<forall>y \<in> set (descendants c).
     \<not> matches_tag ''li'' [(''class'', [''video-item''])] y"
  by (auto simp: spaced_def dest: labelled_entry_no_item_inside)

lemma filter_spaced_labelled:
  "filter (matches_tag ''li'' [(''class'', [''video-item''])]) (spaced (map labelled_entry xs))
     = map labelled_entry xs"
  by (induction xs) (simp_all add: spaced_def labelled_entry_is_item)

lemma labels25_read: "i < 25 \<Longrightarrow> py_int (py_strip (fst (labels_and_urls25 ! i))) = Inr (int i + 6)"
proof -
  assume i: "i < 25"
  have len: "length labels_and_urls25 = 25" by (simp add: labels_and_urls25_def)
  have "map (\<lambda>lu. py_int (py_strip (fst lu))) labels_and_urls25 = map (\<lambda>i. Inr (int i + 6)) [0..<25]"
    by code_simp
  then have "map (\<lambda>lu. py_int (py_strip (fst lu))) labels_and_urls25 ! i
      = map (\<lambda>i. Inr (int i + 6)) [0..<25] ! i"
    by simp
  then show ?thesis using i len by (simp del: upt_Suc)
qed

subsection \<open>Bounded output and the video URL\<close>

text \<open>
  Claim C1, as amended. For a state without an error whose markup parses to a document
  with the three landmarks, the extractor returns at most 20 records; every record is
  built from the primary link of one of the first 20 entries, and its \<open>video_url\<close> is
  the \<open>href\<close> of that link, the empty string when the link has no \<open>href\<close>.
\<close>

theorem extractor_bounded_and_linked:
  assumes "\<not> truthy (error state)" and "raw_html state = Val html"
    and "parser html = Inr soup" and "locate_video_list soup = Inr video_list"
  shows "\<exists>vs. upd_trending_videos (extract_videos_node parser print state) = Some vs \<and>
           length vs \<le> 20 \<and>
           (\<forall>v \<in> set vs. \<exists>item \<in> set (take 20 (video_items video_list)). \<exists>a.
               video_link item = Some a \<and> video_url v = get_attr a ''href'' [])"
proof -
  let ?items = "take 20 (video_items video_list)"
  note located = extract_videos_node_located
    [where parser = parser and html = html and state = state and soup = soup and print = print,
      OF assms]
  show ?thesis
  proof (cases "extract_loop print ?items [] None []")
    case (Inl e)
    then show ?thesis by (simp add: located no_update_def)
  next
    case (Inr p)
    obtain out r' l' where p: "p = (out, r', l')" by (cases p)
    from extract_loop_appends [OF Inr [unfolded p]] obtain ys where
      ys: "out = [] @ ys" "length ys \<le> length ?items"
        "\<forall>v \<in> set ys. \<exists>item \<in> set ?items. \<exists>a r. video_link item = Some a \<and> v = make_video a r"
      by blast
    have "upd_trending_videos (extract_videos_node parser print state) = Some out"
      using Inr p by (simp add: located no_update_def)
    moreover have "length out \<le> 20" using ys(1,2) by simp
    moreover have "\<forall>v \<in> set out. \<exists>item \<in> set ?items. \<exists>a.
        video_link item = Some a \<and> video_url v = get_attr a ''href'' []"
    proof
      fix v assume "v \<in> set out"
      with ys(1,3) obtain item a r where
        "item \<in> set ?items" "video_link item = Some a" "v = make_video a r"
        by auto
      then show "\<exists>item \<in> set ?items. \<exists>a.
          video_link item = Some a \<and> video_url v = get_attr a ''href'' []"
        by auto
    qed
    ultimately show ?thesis by blast
  qed
qed

theorem extractor_bounded_and_linked_witness:
  "\<not> truthy (error fetched_state) \<and> raw_html fetched_state = Val ''<html>'' \<and>
   locate_video_list (sample_page [sample_entry None (plain_link ''u1''), sample_entry None None])
     = Inr (sample_list [sample_entry None (plain_link ''u1''), sample_entry None None]) \<and>
   (\<exists>vs. upd_trending_videos
            (extract_videos_node
               (const_parser (sample_page [sample_entry None (plain_link ''u1''), sample_entry None None]))
               quiet_print fetched_state) = Some vs \<and>
         length vs \<le> 20 \<and>
         (\<forall>v \<in> set vs. \<exists>item \<in> set (take 20 (video_items
               (sample_list [sample_entry None (plain_link ''u1''), sample_entry None None]))). \<exists>a.
             video_link item = Some a \<and> video_url v = get_attr a ''href'' []))"
proof -
  let ?es = "[sample_entry None (plain_link ''u1''), sample_entry None None]"
  have h1: "\<not> truthy (error fetched_state)" by (simp add: fetched_state_def initial_state_def)
  have h2: "raw_html fetched_state = Val ''<html>''"
    by (simp add: fetched_state_def initial_state_def)
  have h3: "const_parser (sample_page ?es) ''<html>'' = Inr (sample_page ?es)"
    by (simp add: const_parser_def)
  have h4: "locate_video_list (sample_page ?es) = Inr (sample_list ?es)"
    by (rule locate_sample_page)
  show ?thesis
    using h1 h2 h4
      extractor_bounded_and_linked
        [where parser = "const_parser (sample_page ?es)" and html = "''<html>''"
           and state = fetched_state and soup = "sample_page ?es" and print = quiet_print,
         OF h1 h2 h3 h4]
    by blast
qed

text \<open>
  Claim C1 as stated fails: an entry whose link element has no \<open>href\<close> attribute is
  emitted, with the default of \<open>get("href", "")\<close> as its \<open>video_url\<close>.
\<close>

theorem empty_video_url_counterexample:
  "\<not> truthy (error fetched_state) \<and> raw_html fetched_state = Val ''<html>'' \<and>
   locate_video_list (sample_page [sample_entry None (Some [])])
     = Inr (sample_list [sample_entry None (Some [])]) \<and>
   upd_trending_videos
     (extract_videos_node (const_parser (sample_page [sample_entry None (Some [])])) quiet_print
        fetched_state)
     = Some [\<lparr>title = ''A title'', channel = ''Chan'', thumbnail_url = ''t.jpg'',
              video_url = [], rank = 1\<rparr>]"
  by code_simp

subsection \<open>A failure at the first entry\<close>

text \<open>
  Claim C2 evaluated where the code breaks it. The first entry has a rank label that is
  not a number: \<open>int\<close> raises before \<open>rank\<close> is bound, the handler raises in turn when it
  formats \<open>rank\<close>, and the outer handler returns the general error with no records,
  whatever the standard output does. The second entry, which alone yields a record, is
  never reached.
\<close>

theorem first_entry_failure_aborts_extraction:
  "extract_videos_node
     (const_parser (sample_page [sample_entry (Some ''abc'') (plain_link ''u1''),
                                 sample_entry None (plain_link ''u2'')]))
     print fetched_state
     = no_update\<lparr>upd_error := Some (''Failed to extract videos: '' @ str_exn unbound_rank),
                   upd_trending_videos := Some []\<rparr> \<and>
   extract_videos_node
     (const_parser (sample_page [sample_entry None (plain_link ''u2'')])) print fetched_state
     = no_update\<lparr>upd_trending_videos :=
         Some [\<lparr>title = ''A title'', channel = ''Chan'', thumbnail_url = ''t.jpg'',
                video_url = ''u2'', rank = 1\<rparr>]\<rparr>"
proof -
  let ?bad = "sample_entry (Some ''abc'') (plain_link ''u1'')"
  let ?good = "sample_entry None (plain_link ''u2'')"
  have state: "\<not> truthy (error fetched_state)" "raw_html fetched_state = Val ''<html>''"
    by (simp_all add: fetched_state_def initial_state_def)
  have items2: "take 20 (video_items (sample_list [?bad, ?good])) = [?bad, ?good]" by code_simp
  have items1: "take 20 (video_items (sample_list [?good])) = [?good]" by code_simp
  have bad: "isl (rank_of ?bad 0)" by code_simp
  have good: "rank_of ?good 0 = Inr 1" by code_simp
  have link: "map_option (\<lambda>a. make_video a 1) (video_link ?good)
      = Some \<lparr>title = ''A title'', channel = ''Chan'', thumbnail_url = ''t.jpg'',
              video_url = ''u2'', rank = 1\<rparr>"
    by code_simp
  have loop2: "extract_loop print [?bad, ?good] [] None [] = Inl unbound_rank"
    using bad by (cases "rank_of ?bad 0") simp_all
  have loop1: "\<exists>r l. extract_loop print [?good] [] None []
      = Inr ([\<lparr>title = ''A title'', channel = ''Chan'', thumbnail_url = ''t.jpg'',
               video_url = ''u2'', rank = 1\<rparr>], r, l)"
    using good link by (cases "video_link ?good") simp_all
  have "extract_videos_node (const_parser (sample_page [?bad, ?good])) print fetched_state
     = no_update\<lparr>upd_error := Some (''Failed to extract videos: '' @ str_exn unbound_rank),
                   upd_trending_videos := Some []\<rparr>"
    using loop2 items2
    by (simp add: extract_videos_node_located
        [where html = "''<html>''" and soup = "sample_page [?bad, ?good]", OF state _ locate_sample_page]
        const_parser_def)
  moreover have "extract_videos_node (const_parser (sample_page [?good])) print fetched_state
     = no_update\<lparr>upd_trending_videos :=
         Some [\<lparr>title = ''A title'', channel = ''Chan'', thumbnail_url = ''t.jpg'',
                video_url = ''u2'', rank = 1\<rparr>]\<rparr>"
    using loop1 items1
    by (auto simp: extract_videos_node_located
        [where html = "''<html>''" and soup = "sample_page [?good]", OF state _ locate_sample_page]
        const_parser_def)
  ultimately show ?thesis by blast
qed

subsection \<open>The fallback rank\<close>




subsection \<open>A failed fetch\<close>

text \<open>
  Claim C4. When the request fails, the run ends in the incoming state with the fetch
  error, the timestamp and an empty list of videos, whatever the parser and the standard
  output are: the extractor
  returns the empty list alone, without parsing and without an error of its own.
\<close>

theorem fetch_failure_short_circuits:
  assumes "requests_get (url state) = Inl e"
  shows "run_workflow requests_get now parser print state
           = state\<lparr>trending_videos := [],
                   error := Val (''Failed to fetch page: '' @ str_exn e),
                   timestamp := Val now\<rparr> \<and>
         truthy (error (run_workflow requests_get now parser print state)) \<and>
         extract_videos_node parser print (apply_update (fetch_page_node requests_get now state) state)
           = no_update\<lparr>upd_trending_videos := Some []\<rparr>"
  using assms
  by (simp add: run_workflow_def fetch_page_node_def extract_videos_node_def apply_update_def
      no_update_def Let_def)

theorem fetch_failure_short_circuits_witness:
  "const_get (Inl (Raise OtherException ''timed out'')) (url initial_state)
     = Inl (Raise OtherException ''timed out'') \<and>
   run_workflow (const_get (Inl (Raise OtherException ''timed out''))) ''t1''
       (const_parser (sample_page [sample_entry None (plain_link ''u1'')])) quiet_print initial_state
     = initial_state\<lparr>error := Val ''Failed to fetch page: timed out'', timestamp := Val ''t1''\<rparr>"
proof -
  have h: "const_get (Inl (Raise OtherException ''timed out'')) (url initial_state)
      = Inl (Raise OtherException ''timed out'')"
    by (simp add: const_get_def)
  show ?thesis
    using h fetch_failure_short_circuits
        [where requests_get = "const_get (Inl (Raise OtherException ''timed out''))"
           and state = initial_state and now = "''t1''"
           and parser = "const_parser (sample_page [sample_entry None (plain_link ''u1'')])"
           and print = quiet_print,
         OF h]
    by (simp add: initial_state_def)
qed

subsection \<open>Missing landmarks\<close>

lemma locate_video_list_messages:
  "locate_video_list soup = Inl msg \<Longrightarrow>
     msg = ''Could not find the 'All' section header'' \<or>
     msg = ''Could not find the 'All' section container'' \<or>
     msg = ''Could not find video list in 'All' section''"
  by (auto simp: locate_video_list_def split: option.splits)

text \<open>What a run gives when the request succeeds, the markup parses and a landmark is missing.\<close>

lemma run_workflow_not_located:
  assumes "requests_get (url state) = Inr html" and "parser html = Inr soup"
    and "locate_video_list soup = Inl msg"
  shows "trending_videos (run_workflow requests_get now parser print state) = [] \<and>
         truthy (error (run_workflow requests_get now parser print state)) \<and>
         timestamp (run_workflow requests_get now parser print state) = Val now \<and>
         raw_html (run_workflow requests_get now parser print state) = Val html \<and>
         (\<not> truthy (error state) \<longrightarrow>
            error (run_workflow requests_get now parser print state) = Val msg)"
proof -
  have "msg \<noteq> []" using locate_video_list_messages [OF assms(3)] by auto
  then show ?thesis
    using assms
    by (simp add: run_workflow_def fetch_page_node_def extract_videos_node_def
        extract_videos_try_def BeautifulSoup_def apply_update_def no_update_def Let_def)
qed

text \<open>
  Claim C5. The request succeeds and the markup parses to the document \<open>soup\<close>. The
  hypotheses are on the document alone: (1) it has no \<open>h3\<close> with the id \<open>group-all\<close>; or
  (2) the first such header has no ancestor \<open>section\<close> of class \<open>page-section\<close>; or (3)
  that section has no \<open>ol\<close> below it that is labelled by \<open>group-all\<close> and of class
  \<open>video-list\<close>. In each case the run ends with no videos, a non-empty error and the
  timestamp and markup of the fetch; if the incoming state carried no error, the error is
  the text for that landmark.
\<close>

theorem missing_landmark_reports_error:
  assumes "requests_get (url state) = Inr html" and "parser html = Inr soup"
  shows "(find_tag_at soup ''h3'' [(''id'', [''group-all''])] = None \<longrightarrow>
            trending_videos (run_workflow requests_get now parser print state) = [] \<and>
            truthy (error (run_workflow requests_get now parser print state)) \<and>
            timestamp (run_workflow requests_get now parser print state) = Val now \<and>
            raw_html (run_workflow requests_get now parser print state) = Val html \<and>
            (\<not> truthy (error state) \<longrightarrow>
               error (run_workflow requests_get now parser print state)
                 = Val ''Could not find the 'All' section header'')) \<and>
         (\<forall>h. find_tag_at soup ''h3'' [(''id'', [''group-all''])] = Some h \<and>
              find_parent h ''section'' [(''class'', [''page-section''])] = None \<longrightarrow>
            trending_videos (run_workflow requests_get now parser print state) = [] \<and>
            truthy (error (run_workflow requests_get now parser print state)) \<and>
            timestamp (run_workflow requests_get now parser print state) = Val now \<and>
            raw_html (run_workflow requests_get now parser print state) = Val html \<and>
            (\<not> truthy (error state) \<longrightarrow>
               error (run_workflow requests_get now parser print state)
                 = Val ''Could not find the 'All' section container'')) \<and>
         (\<forall>h sec. find_tag_at soup ''h3'' [(''id'', [''group-all''])] = Some h \<and>
              find_parent h ''section'' [(''class'', [''page-section''])] = Some sec \<and>
              find_tag sec ''ol''
                [(''aria-labelledby'', [''group-all'']), (''class'', [''video-list''])] = None \<longrightarrow>
            trending_videos (run_workflow requests_get now parser print state) = [] \<and>
            truthy (error (run_workflow requests_get now parser print state)) \<and>
            timestamp (run_workflow requests_get now parser print state) = Val now \<and>
            raw_html (run_workflow requests_get now parser print state) = Val html \<and>
            (\<not> truthy (error state) \<longrightarrow>
               error (run_workflow requests_get now parser print state)
                 = Val ''Could not find video list in 'All' section''))"
proof -
  note run = run_workflow_not_located
    [where requests_get = requests_get and parser = parser and now = now and print = print
       and state = state, OF assms]
  have header: "find_tag_at soup ''h3'' [(''id'', [''group-all''])] = None \<Longrightarrow>
      locate_video_list soup = Inl ''Could not find the 'All' section header''"
    by (simp add: locate_video_list_def)
  have container: "find_tag_at soup ''h3'' [(''id'', [''group-all''])] = Some h \<and>
      find_parent h ''section'' [(''class'', [''page-section''])] = None \<Longrightarrow>
      locate_video_list soup = Inl ''Could not find the 'All' section container''" for h
    by (simp add: locate_video_list_def)
  have list: "find_tag_at soup ''h3'' [(''id'', [''group-all''])] = Some h \<and>
      find_parent h ''section'' [(''class'', [''page-section''])] = Some sec \<and>
      find_tag sec ''ol''
        [(''aria-labelledby'', [''group-all'']), (''class'', [''video-list''])] = None \<Longrightarrow>
      locate_video_list soup = Inl ''Could not find video list in 'All' section''" for h sec
    by (simp add: locate_video_list_def)
  show ?thesis
    using run [OF header] run [OF container] run [OF list] by blast
qed

theorem missing_landmark_reports_error_witness:
  "find_tag_at page_without_header ''h3'' [(''id'', [''group-all''])] = None \<and>
   find_tag page_without_header ''ol''
     [(''aria-labelledby'', [''group-all'']), (''class'', [''video-list''])] \<noteq> None \<and>
   error (run_workflow (const_get (Inr ''<html>'')) ''t1'' (const_parser page_without_header)
            quiet_print initial_state)
     = Val ''Could not find the 'All' section header'' \<and>
   trending_videos (run_workflow (const_get (Inr ''<html>'')) ''t1'' (const_parser page_without_header)
            quiet_print initial_state) = [] \<and>
   timestamp (run_workflow (const_get (Inr ''<html>'')) ''t1'' (const_parser page_without_header)
            quiet_print initial_state) = Val ''t1'' \<and>
   map_option fst (find_tag_at page_without_section ''h3'' [(''id'', [''group-all''])])
     = Some (Tag ''h3'' [(''id'', ''group-all'')] [NavigableString ''All'']) \<and>
   error (run_workflow (const_get (Inr ''<html>'')) ''t1'' (const_parser page_without_section)
            quiet_print initial_state)
     = Val ''Could not find the 'All' section container'' \<and>
   error (run_workflow (const_get (Inr ''<html>'')) ''t1'' (const_parser page_without_list)
            quiet_print initial_state)
     = Val ''Could not find video list in 'All' section''"
proof -
  have get: "const_get (Inr ''<html>'') (url initial_state) = Inr ''<html>''"
    by (simp add: const_get_def)
  have clean: "\<not> truthy (error initial_state)" by (simp add: initial_state_def)
  have a1: "find_tag_at page_without_header ''h3'' [(''id'', [''group-all''])] = None"
    by code_simp
  have a2: "find_tag page_without_header ''ol''
      [(''aria-labelledby'', [''group-all'']), (''class'', [''video-list''])] \<noteq> None"
    by code_simp
  obtain h where b1: "find_tag_at page_without_section ''h3'' [(''id'', [''group-all''])] = Some h"
    and b2: "find_parent h ''section'' [(''class'', [''page-section''])] = None"
    and b3: "fst h = Tag ''h3'' [(''id'', ''group-all'')] [NavigableString ''All'']"
  proof -
    have "find_tag_at page_without_section ''h3'' [(''id'', [''group-all''])]
        = Some (the (find_tag_at page_without_section ''h3'' [(''id'', [''group-all''])]))"
      by code_simp
    moreover have "find_parent (the (find_tag_at page_without_section ''h3'' [(''id'', [''group-all''])]))
        ''section'' [(''class'', [''page-section''])] = None"
      by code_simp
    moreover have "fst (the (find_tag_at page_without_section ''h3'' [(''id'', [''group-all''])]))
        = Tag ''h3'' [(''id'', ''group-all'')] [NavigableString ''All'']"
      by code_simp
    ultimately show ?thesis using that by blast
  qed
  obtain k sec where c1: "find_tag_at page_without_list ''h3'' [(''id'', [''group-all''])] = Some k"
    and c2: "find_parent k ''section'' [(''class'', [''page-section''])] = Some sec"
    and c3: "find_tag sec ''ol''
        [(''aria-labelledby'', [''group-all'']), (''class'', [''video-list''])] = None"
  proof -
    let ?k = "the (find_tag_at page_without_list ''h3'' [(''id'', [''group-all''])])"
    let ?sec = "the (find_parent ?k ''section'' [(''class'', [''page-section''])])"
    have "find_tag_at page_without_list ''h3'' [(''id'', [''group-all''])] = Some ?k"
      by code_simp
    moreover have "find_parent ?k ''section'' [(''class'', [''page-section''])] = Some ?sec"
      by code_simp
    moreover have "find_tag ?sec ''ol''
        [(''aria-labelledby'', [''group-all'']), (''class'', [''video-list''])] = None"
      by code_simp
    ultimately show ?thesis using that by blast
  qed
  note header = missing_landmark_reports_error
    [where requests_get = "const_get (Inr ''<html>'')" and parser = "const_parser page_without_header"
       and html = "''<html>''" and soup = page_without_header and state = initial_state
       and now = "''t1''" and print = quiet_print, OF get]
  note container = missing_landmark_reports_error
    [where requests_get = "const_get (Inr ''<html>'')" and parser = "const_parser page_without_section"
       and html = "''<html>''" and soup = page_without_section and state = initial_state
       and now = "''t1''" and print = quiet_print, OF get]
  note list = missing_landmark_reports_error
    [where requests_get = "const_get (Inr ''<html>'')" and parser = "const_parser page_without_list"
       and html = "''<html>''" and soup = page_without_list and state = initial_state
       and now = "''t1''" and print = quiet_print, OF get]
  have r1: "error (run_workflow (const_get (Inr ''<html>'')) ''t1'' (const_parser page_without_header)
            quiet_print initial_state) = Val ''Could not find the 'All' section header''"
    "trending_videos (run_workflow (const_get (Inr ''<html>'')) ''t1''
        (const_parser page_without_header) quiet_print initial_state) = []"
    "timestamp (run_workflow (const_get (Inr ''<html>'')) ''t1''
        (const_parser page_without_header) quiet_print initial_state) = Val ''t1''"
    using header a1 clean by (simp_all add: const_parser_def)
  have r2: "error (run_workflow (const_get (Inr ''<html>'')) ''t1'' (const_parser page_without_section)
            quiet_print initial_state) = Val ''Could not find the 'All' section container''"
    using container b1 b2 clean by (simp add: const_parser_def)
  have r3: "error (run_workflow (const_get (Inr ''<html>'')) ''t1'' (const_parser page_without_list)
            quiet_print initial_state) = Val ''Could not find video list in 'All' section''"
    using list c1 c2 c3 clean by (simp add: const_parser_def)
  show ?thesis using a1 a2 b1 b3 r1 r2 r3 by simp
qed

subsection \<open>Truncation to twenty entries\<close>

text \<open>
  The extractor on a located list whose first entries, at most 20, all have a primary link
  and a rank that can be read.
\<close>

lemma extract_videos_node_readable:
  assumes "\<not> truthy (error state)" and "raw_html state = Val html" and "parser html = Inr soup"
    and "locate_video_list soup = Inr video_list"
    and "take 20 (video_items video_list) = items"
    and "\<forall>i < length items. video_link (items ! i) = Some (link i)"
    and "\<forall>i < length items. rank_of (items ! i) i = Inr (rk i)"
  shows "extract_videos_node parser print state =
    no_update\<lparr>upd_trending_videos := Some (map (\<lambda>i. make_video (link i) (rk i)) [0..<length items])\<rparr>"
proof -
  have "\<forall>i < length items. rank_of (items ! i) (length ([]::TrendingVideo list) + i) = Inr (rk i)"
    using assms(7) by simp
  from extract_loop_readable [OF assms(6) this, of print None "[]"] obtain r' where
    "extract_loop print items [] None [] =
       Inr (map (\<lambda>i. make_video (link i) (rk i)) [0..<length items], r', [])"
    by auto
  then show ?thesis
    using assms(5)
    by (simp add: extract_videos_node_located
        [where parser = parser and html = html and state = state and soup = soup and print = print,
          OF assms(1-4)])
qed

text \<open>
  Claim C6, as amended. The state has no error and the markup parses to a document in
  which the header, its section and the list are found; the list is a tag with the
  children \<open>cs\<close>. No child holds an entry further inside, so that the entries are the
  children that are \<open>li\<close> tags of class \<open>video-item\<close>, in the order of the children: \<open>es\<close>.
  There are at least 20 of them, and each of the first 20 has a primary link, \<open>link i\<close>,
  and a rank label that is absent or that \<open>int\<close> reads; \<open>rk i\<close> is \<open>i + 1\<close> when the label
  is absent and the value of the label otherwise.

  Then the extractor returns exactly 20 records and no error. The record at position
  \<open>i\<close> is built from the link of entry \<open>i\<close>, carries its \<open>href\<close>, and has the rank
  \<open>rk i\<close>: the ranks are 1 to 20 when the labels are absent or read the positions. Nothing
  is asked of the entries after the first 20.
\<close>

theorem first_twenty_entries_extracted:
  assumes "\<not> truthy (error state)" and "raw_html state = Val html" and "parser html = Inr soup"
    and "find_tag_at soup ''h3'' [(''id'', [''group-all''])] = Some h"
    and "find_parent h ''section'' [(''class'', [''page-section''])] = Some sec"
    and "find_tag sec ''ol''
           [(''aria-labelledby'', [''group-all'']), (''class'', [''video-list''])] = Some (Tag n a cs)"
    and "\<forall>c \<in> set cs. \<forall>y \<in> set (descendants c).
           \<not> matches_tag ''li'' [(''class'', [''video-item''])] y"
    and "filter (matches_tag ''li'' [(''class'', [''video-item''])]) cs = es"
    and "20 \<le> length es"
    and "\<forall>i < 20. find_tag (es ! i) ''a'' [(''class'', [''video-link''])] = Some (link i)"
    and "\<forall>i < 20.
           (case find_tag (es ! i) ''span''
                   [(''class'', [''text-slate-400'', ''font-semibold'', ''text-xl'', ''p-4''])] of
              None \<Rightarrow> rk i = int i + 1
            | Some sp \<Rightarrow> py_int (get_text_strip sp) = Inr (rk i))"
  shows "\<exists>vs. extract_videos_node parser print state = no_update\<lparr>upd_trending_videos := Some vs\<rparr> \<and>
           length vs = 20 \<and>
           (\<forall>i < 20. vs ! i = make_video (link i) (rk i) \<and>
                      video_url (vs ! i) = get_attr (link i) ''href'' [] \<and>
                      rank (vs ! i) = rk i) \<and>
           ((\<forall>i < 20. rk i = int i + 1) \<longrightarrow> map rank vs = map (\<lambda>i. int i + 1) [0..<20])"
proof -
  let ?items = "take 20 es"
  let ?vs = "map (\<lambda>i. make_video (link i) (rk i)) [0..<20]"
  have len: "length ?items = 20" using assms(9) by simp
  have located: "locate_video_list soup = Inr (Tag n a cs)"
    using assms(4-6) by (simp add: locate_video_list_def)
  have items: "take 20 (video_items (Tag n a cs)) = ?items"
    using find_all_children [OF assms(7)] assms(8) by (simp add: video_items_def)
  have links: "\<forall>i < length ?items. video_link (?items ! i) = Some (link i)"
    using assms(10) len by (simp add: video_link_def)
  have ranks: "\<forall>i < length ?items. rank_of (?items ! i) i = Inr (rk i)"
  proof (intro allI impI)
    fix i assume "i < length ?items"
    then have i: "i < 20" using len by simp
    with assms(11) have
      "(case find_tag (es ! i) ''span''
              [(''class'', [''text-slate-400'', ''font-semibold'', ''text-xl'', ''p-4''])] of
          None \<Rightarrow> rk i = int i + 1
        | Some sp \<Rightarrow> py_int (get_text_strip sp) = Inr (rk i))"
      by blast
    then show "rank_of (?items ! i) i = Inr (rk i)"
      using i by (simp add: rank_of_def rank_span_def split: option.splits)
  qed
  have "extract_videos_node parser print state = no_update\<lparr>upd_trending_videos := Some ?vs\<rparr>"
    using extract_videos_node_readable
      [where parser = parser and html = html and state = state and soup = soup and print = print,
        OF assms(1-3) located items links ranks]
    len by simp
  moreover have "length ?vs = 20" by simp
  moreover have "\<forall>i < 20. ?vs ! i = make_video (link i) (rk i) \<and>
      video_url (?vs ! i) = get_attr (link i) ''href'' [] \<and> rank (?vs ! i) = rk i"
    by (simp del: upt_Suc)
  moreover have "(\<forall>i < 20. rk i = int i + 1) \<longrightarrow> map rank ?vs = map (\<lambda>i. int i + 1) [0..<20]"
    by (simp del: upt_Suc)
  ultimately show ?thesis by blast
qed

text \<open>The sample page with the twenty-five labelled entries, as the theorem needs it.\<close>

lemma length_labels_and_urls25: "length labels_and_urls25 = 25"
  by (simp add: labels_and_urls25_def)

lemma entries25_nth:
  "i < 25 \<Longrightarrow> entries25 ! i = labelled_entry (labels_and_urls25 ! i)"
  by (simp add: entries25_def length_labels_and_urls25)

lemma entries25_links:
  "\<forall>i < 20. find_tag (entries25 ! i) ''a'' [(''class'', [''video-link''])]
     = Some (Tag ''a'' [(''class'', ''video-link''), (''href'', snd (labels_and_urls25 ! i))] [])"
  by (simp add: entries25_nth find_link_labelled_entry)

lemma entries25_labels:
  "\<forall>i < 20.
     (case find_tag (entries25 ! i) ''span''
             [(''class'', [''text-slate-400'', ''font-semibold'', ''text-xl'', ''p-4''])] of
        None \<Rightarrow> int i + 6 = int i + 1
      | Some sp \<Rightarrow> py_int (get_text_strip sp) = Inr (int i + 6))"
  by (simp add: entries25_nth find_label_labelled_entry get_text_strip_single labels25_read)

theorem first_twenty_entries_extracted_witness:
  "filter (matches_tag ''li'' [(''class'', [''video-item''])]) (spaced entries25) = entries25 \<and>
   length entries25 = 25 \<and>
   (\<exists>vs. extract_videos_node (const_parser (sample_page (spaced entries25))) quiet_print fetched_state
            = no_update\<lparr>upd_trending_videos := Some vs\<rparr> \<and>
          length vs = 20 \<and>
          video_url (vs ! 0) = ''a01'' \<and> rank (vs ! 0) = 6 \<and>
          video_url (vs ! 19) = ''a20'' \<and> rank (vs ! 19) = 25)"
proof -
  let ?soup = "sample_page (spaced entries25)"
  have h1: "\<not> truthy (error fetched_state)" by (simp add: fetched_state_def initial_state_def)
  have h2: "raw_html fetched_state = Val ''<html>''"
    by (simp add: fetched_state_def initial_state_def)
  have h3: "const_parser ?soup ''<html>'' = Inr ?soup" by (simp add: const_parser_def)
  have h6: "find_tag (sample_section (spaced entries25)) ''ol''
      [(''aria-labelledby'', [''group-all'']), (''class'', [''video-list''])]
      = Some (Tag ''ol'' [(''aria-labelledby'', ''group-all''), (''class'', ''video-list'')]
                (spaced entries25))"
    using find_list_sample_page [of "spaced entries25"] by (simp add: sample_list_def)
  have h7: "\<forall>c \<in> set (spaced entries25). \<forall>y \<in> set (descendants c).
      \<not> matches_tag ''li'' [(''class'', [''video-item''])] y"
    unfolding entries25_def by (rule spaced_no_item_inside)
  have h8: "filter (matches_tag ''li'' [(''class'', [''video-item''])]) (spaced entries25) = entries25"
    unfolding entries25_def by (rule filter_spaced_labelled)
  have len: "length entries25 = 25" by (simp add: entries25_def length_labels_and_urls25)
  have h9: "20 \<le> length entries25" using len by simp
  from first_twenty_entries_extracted
    [where parser = "const_parser ?soup" and html = "''<html>''" and state = fetched_state
       and soup = ?soup and print = quiet_print and rk = "\<lambda>i. int i + 6",
     OF h1 h2 h3 find_header_sample_page find_section_sample_page h6 h7 h8 h9
       entries25_links entries25_labels]
  obtain vs where
    vs: "extract_videos_node (const_parser ?soup) quiet_print fetched_state
           = no_update\<lparr>upd_trending_videos := Some vs\<rparr>"
      "length vs = 20"
      "\<forall>i < 20. video_url (vs ! i)
          = get_attr (Tag ''a'' [(''class'', ''video-link''), (''href'', snd (labels_and_urls25 ! i))] [])
              ''href'' [] \<and> rank (vs ! i) = int i + 6"
    by blast
  have "video_url (vs ! 0) = ''a01'' \<and> rank (vs ! 0) = 6"
    using vs(3) by (simp add: labels_and_urls25_def)
  moreover have "video_url (vs ! 19) = ''a20'' \<and> rank (vs ! 19) = 25"
    using vs(3) by (simp add: labels_and_urls25_def)
  ultimately show ?thesis using h8 len vs(1,2) by blast
qed

text \<open>
  Claim C6 as stated fails for the ranks: twenty-five entries, each with a primary link
  and a numeric rank label, whose labels run from 6 to 30. The twenty records carry the
  ranks of the labels, 6 to 25, not 1 to 20.
\<close>

theorem label_ranks_counterexample:
  "filter (matches_tag ''li'' [(''class'', [''video-item''])]) (spaced entries25) = entries25 \<and>
   length entries25 = 25 \<and>
   list_all (\<lambda>e. find_tag e ''a'' [(''class'', [''video-link''])] \<noteq> None) entries25 \<and>
   map rank (the (upd_trending_videos
      (extract_videos_node (const_parser (sample_page (spaced entries25))) quiet_print fetched_state)))
     = [6, 7, 8, 9, 10, 11, 12, 13, 14, 15, 16, 17, 18, 19, 20, 21, 22, 23, 24, 25]"
proof -
  let ?soup = "sample_page (spaced entries25)"
  let ?link = "\<lambda>i. Tag ''a'' [(''class'', ''video-link''), (''href'', snd (labels_and_urls25 ! i))] []"
  have h1: "\<not> truthy (error fetched_state)" by (simp add: fetched_state_def initial_state_def)
  have h2: "raw_html fetched_state = Val ''<html>''"
    by (simp add: fetched_state_def initial_state_def)
  have h3: "const_parser ?soup ''<html>'' = Inr ?soup" by (simp add: const_parser_def)
  have h8: "filter (matches_tag ''li'' [(''class'', [''video-item''])]) (spaced entries25) = entries25"
    unfolding entries25_def by (rule filter_spaced_labelled)
  have len: "length entries25 = 25" by (simp add: entries25_def length_labels_and_urls25)
  have "\<forall>c \<in> set (spaced entries25). \<forall>y \<in> set (descendants c).
      \<not> matches_tag ''li'' [(''class'', [''video-item''])] y"
    unfolding entries25_def by (rule spaced_no_item_inside)
  from find_all_children [OF this] h8
  have items: "take 20 (video_items (sample_list (spaced entries25))) = take 20 entries25"
    by (simp add: video_items_def sample_list_def)
  have links: "\<forall>i < length (take 20 entries25). video_link (take 20 entries25 ! i) = Some (?link i)"
    using entries25_links len by (simp add: video_link_def)
  have ranks: "\<forall>i < length (take 20 entries25). rank_of (take 20 entries25 ! i) i = Inr (int i + 6)"
    using len
    by (simp add: rank_of_def rank_span_def entries25_nth find_label_labelled_entry
        get_text_strip_single labels25_read)
  have "extract_videos_node (const_parser ?soup) quiet_print fetched_state
      = no_update\<lparr>upd_trending_videos :=
          Some (map (\<lambda>i. make_video (?link i) (int i + 6)) [0..<length (take 20 entries25)])\<rparr>"
    by (rule extract_videos_node_readable
        [where html = "''<html>''" and soup = ?soup and parser = "const_parser ?soup"
           and state = fetched_state and print = quiet_print and link = ?link
           and rk = "\<lambda>i. int i + 6" and items = "take 20 entries25"
           and video_list = "sample_list (spaced entries25)",
         OF h1 h2 h3 locate_sample_page items links ranks])
  then have "map rank (the (upd_trending_videos
      (extract_videos_node (const_parser ?soup) quiet_print fetched_state)))
      = map (\<lambda>i. int i + 6) [0..<20]"
    using len by (simp add: no_update_def comp_def del: upt_Suc)
  moreover have "map (\<lambda>i. int i + 6) [0..<20]
      = [6, 7, 8, 9, 10, 11, 12, 13, 14, 15, 16, 17, 18, 19, 20, 21, 22, 23, 24, 25]"
    by code_simp
  moreover have "list_all (\<lambda>e. find_tag e ''a'' [(''class'', [''video-link''])] \<noteq> None) entries25"
    by (simp add: entries25_def list_all_iff find_link_labelled_entry)
  ultimately show ?thesis using h8 len by simp
qed

subsection \<open>The channel name\<close>



subsection \<open>The state along a run\<close>

lemma extract_videos_node_reads:
  "raw_html s = raw_html s' \<Longrightarrow> error s = error s' \<Longrightarrow>
     extract_videos_node parser print s = extract_videos_node parser print s'"
  by (simp add: extract_videos_node_def extract_videos_try_def)

lemma upd_error_extract_nonempty:
  "upd_error (extract_videos_node parser print s) = Some m \<Longrightarrow> m \<noteq> []"
  by (auto simp: extract_videos_node_def extract_videos_try_def no_update_def
      split: if_splits sum.splits field.splits prod.splits
      dest: locate_video_list_messages)

lemma upd_error_extract_truthy:
  "truthy (error s) \<Longrightarrow> upd_error (extract_videos_node parser print s) = None"
  by (simp add: extract_videos_node_def no_update_def)

text \<open>
  Claim C9. Along a run (fetcher, then extractor, each update stored into the state):
  the URL never changes; a key of the state that holds a value before a stage holds a
  value after it; what the fetcher wrote into \<open>raw_html\<close>, \<open>timestamp\<close> and \<open>error\<close> is
  still there after the extractor; the fetcher does not write \<open>trending_videos\<close>; no stage
  writes an empty error; and at most one of the two stages writes \<open>error\<close>.
\<close>

theorem workflow_state_append_only:
  "(let u1 = fetch_page_node requests_get now state;
        s1 = apply_update u1 state;
        u2 = extract_videos_node parser print s1;
        s2 = apply_update u2 s1
    in url s1 = url state \<and> url s2 = url state \<and>
       (is_set (raw_html state) \<longrightarrow> is_set (raw_html s1)) \<and>
       (is_set (error state) \<longrightarrow> is_set (error s1)) \<and>
       (is_set (timestamp state) \<longrightarrow> is_set (timestamp s1)) \<and>
       (is_set (raw_html s1) \<longrightarrow> is_set (raw_html s2)) \<and>
       (is_set (error s1) \<longrightarrow> is_set (error s2)) \<and>
       (is_set (timestamp s1) \<longrightarrow> is_set (timestamp s2)) \<and>
       raw_html s2 = raw_html s1 \<and> timestamp s2 = timestamp s1 \<and>
       (\<forall>m. upd_error u1 = Some m \<longrightarrow> m \<noteq> [] \<and> error s2 = Val m) \<and>
       (\<forall>m. upd_error u2 = Some m \<longrightarrow> m \<noteq> []) \<and>
       upd_trending_videos u1 = None \<and> trending_videos s1 = trending_videos state \<and>
       (upd_error u1 = None \<or> upd_error u2 = None))"
proof -
  define u1 where "u1 = fetch_page_node requests_get now state"
  define s1 where "s1 = apply_update u1 state"
  define u2 where "u2 = extract_videos_node parser print s1"
  define s2 where "s2 = apply_update u2 s1"
  have fetch_err: "m \<noteq> [] \<and> truthy (error s1)" if "upd_error u1 = Some m" for m
    using that
    by (auto simp: u1_def s1_def fetch_page_node_def apply_update_def no_update_def
        split: sum.splits)
  have keep_err: "error s2 = Val m" if "upd_error u1 = Some m" for m
  proof -
    from that have "truthy (error s1)" using fetch_err by blast
    then have "upd_error u2 = None" unfolding u2_def by (rule upd_error_extract_truthy)
    then show ?thesis using that by (simp add: s2_def s1_def apply_update_def)
  qed
  have once: "upd_error u1 = None \<or> upd_error u2 = None"
  proof (cases "upd_error u1")
    case None
    then show ?thesis by simp
  next
    case (Some m)
    then have "truthy (error s1)" using fetch_err by blast
    then show ?thesis unfolding u2_def by (simp add: upd_error_extract_truthy)
  qed
  have ext_err: "m \<noteq> []" if "upd_error u2 = Some m" for m
    using that unfolding u2_def by (rule upd_error_extract_nonempty)
  have no_raw2: "upd_raw_html u2 = None" "upd_timestamp u2 = None"
    by (auto simp: u2_def extract_videos_node_def extract_videos_try_def no_update_def
        split: sum.splits field.splits prod.splits)
  have no_vid1: "upd_trending_videos u1 = None"
    by (simp add: u1_def fetch_page_node_def no_update_def split: sum.splits)
  have "url s1 = url state \<and> url s2 = url state \<and>
       (is_set (raw_html state) \<longrightarrow> is_set (raw_html s1)) \<and>
       (is_set (error state) \<longrightarrow> is_set (error s1)) \<and>
       (is_set (timestamp state) \<longrightarrow> is_set (timestamp s1)) \<and>
       (is_set (raw_html s1) \<longrightarrow> is_set (raw_html s2)) \<and>
       (is_set (error s1) \<longrightarrow> is_set (error s2)) \<and>
       (is_set (timestamp s1) \<longrightarrow> is_set (timestamp s2)) \<and>
       raw_html s2 = raw_html s1 \<and> timestamp s2 = timestamp s1 \<and>
       (\<forall>m. upd_error u1 = Some m \<longrightarrow> m \<noteq> [] \<and> error s2 = Val m) \<and>
       (\<forall>m. upd_error u2 = Some m \<longrightarrow> m \<noteq> []) \<and>
       upd_trending_videos u1 = None \<and> trending_videos s1 = trending_videos state \<and>
       (upd_error u1 = None \<or> upd_error u2 = None)"
    using fetch_err keep_err once ext_err no_raw2 no_vid1
    by (auto simp: s1_def s2_def apply_update_def is_set_def split: option.splits)
  then show ?thesis
    unfolding u1_def s1_def u2_def s2_def Let_def .
qed

theorem workflow_state_append_only_witness:
  "upd_error (fetch_page_node (const_get (Inl (Raise OtherException ''timed out''))) ''t1'' initial_state)
     = Some ''Failed to fetch page: timed out'' \<and>
   error (run_workflow (const_get (Inl (Raise OtherException ''timed out''))) ''t1''
            failing_parser quiet_print initial_state)
     = Val ''Failed to fetch page: timed out'' \<and>
   upd_error (extract_videos_node failing_parser quiet_print
      (apply_update
         (fetch_page_node (const_get (Inl (Raise OtherException ''timed out''))) ''t1'' initial_state)
         initial_state)) = None"
proof -
  have h: "upd_error
      (fetch_page_node (const_get (Inl (Raise OtherException ''timed out''))) ''t1'' initial_state)
      = Some ''Failed to fetch page: timed out''"
    by (simp add: fetch_page_node_def const_get_def no_update_def)
  from workflow_state_append_only
    [where requests_get = "const_get (Inl (Raise OtherException ''timed out''))" and now = "''t1''"
       and state = initial_state and parser = failing_parser and print = quiet_print]
  show ?thesis using h by (simp add: Let_def run_workflow_def)
qed

subsection \<open>The extractor at its boundary\<close>

text \<open>
  Claim C10. The extractor returns an update for every state, and the update always
  holds the list of videos; whenever it holds an error, the list is empty. For a state
  without an error, a missing \<open>raw_html\<close> key, a \<open>raw_html\<close> of \<open>None\<close> and markup the
  parser rejects each end in the general extraction error together with the empty list.
\<close>

theorem extractor_total_and_atomic:
  "upd_trending_videos (extract_videos_node parser print state) \<noteq> None \<and>
   (upd_error (extract_videos_node parser print state) \<noteq> None \<longrightarrow>
      upd_trending_videos (extract_videos_node parser print state) = Some []) \<and>
   (\<not> truthy (error state) \<and> raw_html state = Missing \<longrightarrow>
      extract_videos_node parser print state =
        no_update\<lparr>upd_error := Some (''Failed to extract videos: '' @ [CHR 0x27] @ ''raw_html'' @ [CHR 0x27]),
                    upd_trending_videos := Some []\<rparr>) \<and>
   (\<not> truthy (error state) \<and> raw_html state = PyNone \<longrightarrow>
      extract_videos_node parser print state =
        no_update\<lparr>upd_error := Some (''Failed to extract videos: '' @
            ''Incoming markup is of an invalid type: None. Markup must be a string, a bytestring, or an open filehandle.''),
                    upd_trending_videos := Some []\<rparr>) \<and>
   (\<forall>html e. \<not> truthy (error state) \<and> raw_html state = Val html \<and> parser html = Inl e \<longrightarrow>
      extract_videos_node parser print state =
        no_update\<lparr>upd_error := Some (''Failed to extract videos: '' @ str_exn e),
                    upd_trending_videos := Some []\<rparr>)"
proof -
  have a: "upd_trending_videos (extract_videos_node parser print state) \<noteq> None"
    by (auto simp: extract_videos_node_def extract_videos_try_def no_update_def
        split: sum.splits field.splits prod.splits)
  have b: "upd_error (extract_videos_node parser print state) \<noteq> None \<longrightarrow>
      upd_trending_videos (extract_videos_node parser print state) = Some []"
    by (auto simp: extract_videos_node_def extract_videos_try_def no_update_def
        split: sum.splits field.splits prod.splits)
  have c: "\<not> truthy (error state) \<and> raw_html state = Missing \<longrightarrow>
      extract_videos_node parser print state =
        no_update\<lparr>upd_error := Some (''Failed to extract videos: '' @ [CHR 0x27] @ ''raw_html'' @ [CHR 0x27]),
                    upd_trending_videos := Some []\<rparr>"
    by (simp add: extract_videos_node_def extract_videos_try_def)
  have d: "\<not> truthy (error state) \<and> raw_html state = PyNone \<longrightarrow>
      extract_videos_node parser print state =
        no_update\<lparr>upd_error := Some (''Failed to extract videos: '' @
            ''Incoming markup is of an invalid type: None. Markup must be a string, a bytestring, or an open filehandle.''),
                    upd_trending_videos := Some []\<rparr>"
    by (simp add: extract_videos_node_def extract_videos_try_def BeautifulSoup_def)
  have e: "\<forall>html e. \<not> truthy (error state) \<and> raw_html state = Val html \<and> parser html = Inl e \<longrightarrow>
      extract_videos_node parser print state =
        no_update\<lparr>upd_error := Some (''Failed to extract videos: '' @ str_exn e),
                    upd_trending_videos := Some []\<rparr>"
    by (simp add: extract_videos_node_def extract_videos_try_def BeautifulSoup_def)
  show ?thesis using a b c d e by blast
qed

theorem extractor_total_and_atomic_witness:
  "\<not> truthy (error initial_state) \<and> raw_html initial_state = PyNone \<and>
   extract_videos_node failing_parser quiet_print initial_state =
     no_update\<lparr>upd_error := Some (''Failed to extract videos: '' @
         ''Incoming markup is of an invalid type: None. Markup must be a string, a bytestring, or an open filehandle.''),
                 upd_trending_videos := Some []\<rparr> \<and>
   \<not> truthy (error fetched_state) \<and> raw_html fetched_state = Val ''<html>'' \<and>
   failing_parser ''<html>'' = Inl (Raise OtherException ''markup rejected'') \<and>
   extract_videos_node failing_parser quiet_print fetched_state =
     no_update\<lparr>upd_error := Some ''Failed to extract videos: markup rejected'',
                 upd_trending_videos := Some []\<rparr>"
proof -
  have h1: "\<not> truthy (error initial_state)" "raw_html initial_state = PyNone"
    by (simp_all add: initial_state_def)
  have h2: "\<not> truthy (error fetched_state)" "raw_html fetched_state = Val ''<html>''"
    by (simp_all add: fetched_state_def initial_state_def)
  have h3: "failing_parser ''<html>'' = Inl (Raise OtherException ''markup rejected'')"
    by (simp add: failing_parser_def)
  note i1 = extractor_total_and_atomic
    [where parser = failing_parser and print = quiet_print and state = initial_state]
  note i2 = extractor_total_and_atomic
    [where parser = failing_parser and print = quiet_print and state = fetched_state]
  have r1: "extract_videos_node failing_parser quiet_print initial_state =
     no_update\<lparr>upd_error := Some (''Failed to extract videos: '' @
         ''Incoming markup is of an invalid type: None. Markup must be a string, a bytestring, or an open filehandle.''),
                 upd_trending_videos := Some []\<rparr>"
    using i1 h1 by blast
  have "extract_videos_node failing_parser quiet_print fetched_state =
     no_update\<lparr>upd_error := Some (''Failed to extract videos: '' @
        str_exn (Raise OtherException ''markup rejected'')),
                 upd_trending_videos := Some []\<rparr>"
    using i2 h2 h3 by blast
  then have r2: "extract_videos_node failing_parser quiet_print fetched_state =
     no_update\<lparr>upd_error := Some ''Failed to extract videos: markup rejected'',
                 upd_trending_videos := Some []\<rparr>"
    by simp
  show ?thesis using h1 h2 h3 r1 r2 by blast
qed

subsection \<open>Further properties of the loop and of repeated extraction\<close>

text \<open>
  When the standard output refuses the line of the inner handler, the exception of
  \<open>print\<close> reaches the outer handler: the record already collected is lost and the run
  gets the general error. With an output that accepts the line the same page gives the
  record of the first entry.
\<close>

theorem print_failure_loses_extraction:
  "extract_videos_node
     (const_parser (sample_page [light_entry ''u1'', labelled_entry (''abc'', ''u2'')]))
     refusing_print fetched_state
     = no_update\<lparr>upd_error := Some ''Failed to extract videos: stdout cannot encode the line'',
                   upd_trending_videos := Some []\<rparr> \<and>
   extract_videos_node
     (const_parser (sample_page [light_entry ''u1'', labelled_entry (''abc'', ''u2'')]))
     quiet_print fetched_state
     = no_update\<lparr>upd_trending_videos :=
         Some [\<lparr>title = ''No title'', channel = [], thumbnail_url = [], video_url = ''u1'',
                rank = 1\<rparr>]\<rparr>"
  by code_simp

text \<open>
  The scenario of three entries without rank labels of which the second has no link:
  two records, ranks 1 and 2, and no error.
\<close>

theorem three_entries_one_without_link:
  "extract_videos_node
     (const_parser (sample_page [light_entry ''u1'', sample_entry None None, light_entry ''u3'']))
     quiet_print fetched_state
   = no_update\<lparr>upd_trending_videos :=
       Some [\<lparr>title = ''No title'', channel = [], thumbnail_url = [], video_url = ''u1'', rank = 1\<rparr>,
             \<lparr>title = ''No title'', channel = [], thumbnail_url = [], video_url = ''u3'', rank = 2\<rparr>]\<rparr>"
  by code_simp

text \<open>
  Extracting again from the state the extractor has just written changes nothing.
\<close>

theorem extraction_twice_same_state:
  "apply_update
     (extract_videos_node parser print (apply_update (extract_videos_node parser print state) state))
     (apply_update (extract_videos_node parser print state) state)
   = apply_update (extract_videos_node parser print state) state"
proof (cases "truthy (error state)")
  case True
  then show ?thesis
    by (simp add: extract_videos_node_def apply_update_def no_update_def)
next
  case False
  let ?u = "extract_videos_node parser print state"
  let ?s1 = "apply_update ?u state"
  show ?thesis
  proof (cases "upd_error ?u")
    case None
    then have "raw_html ?s1 = raw_html state" "error ?s1 = error state"
      by (auto simp: apply_update_def extract_videos_node_def extract_videos_try_def no_update_def
          split: sum.splits field.splits prod.splits if_splits)
    then have same: "extract_videos_node parser print ?s1 = ?u"
      by (rule extract_videos_node_reads)
    have "upd_raw_html ?u = None" "upd_timestamp ?u = None"
      by (auto simp: extract_videos_node_def extract_videos_try_def no_update_def
          split: sum.splits field.splits prod.splits)
    then show ?thesis using None
      by (simp add: same) (auto simp: apply_update_def split: option.splits)
  next
    case (Some m)
    then have m: "m \<noteq> []" by (rule upd_error_extract_nonempty)
    have vids: "upd_trending_videos ?u = Some []"
      using Some
      by (auto simp: extract_videos_node_def extract_videos_try_def no_update_def
          split: sum.splits field.splits prod.splits if_splits)
    have "truthy (error ?s1)" using Some m by (simp add: apply_update_def)
    then have "extract_videos_node parser print ?s1 = no_update\<lparr>upd_trending_videos := Some []\<rparr>"
      by (simp add: extract_videos_node_def)
    then show ?thesis using vids by (simp add: apply_update_def no_update_def)
  qed
qed

end
